theory Spec2Isabelle
  imports Complex_Main "HOL-Library.AList"
begin

section \<open>JavaScript numbers\<close>

text \<open>
  The scores and metrics of \<^verbatim>\<open>lib/salient/graph/document.js\<close> are JavaScript numbers.
  A finite number is modelled by a real (the rounding of IEEE doubles is idealised
  away, and the two zeros are identified: every zero the source divides by is a positive
  zero); the three non-finite values are kept apart, since the source divides by zero
  and takes logarithms of zero without a guard.
\<close>

datatype jsnum = Num real | NaN | PInf | NInf

fun js_add :: "jsnum \<Rightarrow> jsnum \<Rightarrow> jsnum" where
  "js_add NaN _ = NaN"
| "js_add _ NaN = NaN"
| "js_add (Num a) (Num b) = Num (a + b)"
| "js_add PInf NInf = NaN"
| "js_add NInf PInf = NaN"
| "js_add PInf _ = PInf"
| "js_add _ PInf = PInf"
| "js_add NInf _ = NInf"
| "js_add _ NInf = NInf"

fun js_mul :: "jsnum \<Rightarrow> jsnum \<Rightarrow> jsnum" where
  "js_mul NaN _ = NaN"
| "js_mul _ NaN = NaN"
| "js_mul (Num a) (Num b) = Num (a * b)"
| "js_mul (Num a) PInf = (if a = 0 then NaN else if 0 < a then PInf else NInf)"
| "js_mul (Num a) NInf = (if a = 0 then NaN else if 0 < a then NInf else PInf)"
| "js_mul PInf (Num b) = (if b = 0 then NaN else if 0 < b then PInf else NInf)"
| "js_mul NInf (Num b) = (if b = 0 then NaN else if 0 < b then NInf else PInf)"
| "js_mul PInf PInf = PInf"
| "js_mul NInf NInf = PInf"
| "js_mul PInf NInf = NInf"
| "js_mul NInf PInf = NInf"

fun js_div :: "jsnum \<Rightarrow> jsnum \<Rightarrow> jsnum" where
  "js_div NaN _ = NaN"
| "js_div _ NaN = NaN"
| "js_div (Num a) (Num b) =
     (if b = 0 then (if a = 0 then NaN else if 0 < a then PInf else NInf) else Num (a / b))"
| "js_div (Num a) PInf = Num 0"
| "js_div (Num a) NInf = Num 0"
| "js_div PInf (Num b) = (if 0 \<le> b then PInf else NInf)"
| "js_div NInf (Num b) = (if 0 \<le> b then NInf else PInf)"
| "js_div PInf PInf = NaN"
| "js_div PInf NInf = NaN"
| "js_div NInf PInf = NaN"
| "js_div NInf NInf = NaN"

text \<open>
  \<^verbatim>\<open>Math.log\<close>, \<^verbatim>\<open>Math.sqrt\<close> and the constant \<^verbatim>\<open>Math.LN10\<close>. The square root is the
  exact one. \<^verbatim>\<open>Math.sqrt\<close> gives the nearest double, which is the exact root of a perfect
  square and a rounded one otherwise: the square of the root of 5 is 5 here and
  5.000000000000001 in the code. No statement below rests on the root of a number that
  is not a perfect square.
\<close>

fun js_log :: "jsnum \<Rightarrow> jsnum" where
  "js_log (Num r) = (if r < 0 then NaN else if r = 0 then NInf else Num (ln r))"
| "js_log NaN = NaN"
| "js_log PInf = PInf"
| "js_log NInf = NaN"

fun js_sqrt :: "jsnum \<Rightarrow> jsnum" where
  "js_sqrt (Num r) = (if r < 0 then NaN else Num (sqrt r))"
| "js_sqrt NaN = NaN"
| "js_sqrt PInf = PInf"
| "js_sqrt NInf = NaN"

definition LN10 :: jsnum where
  "LN10 = Num (ln 10)"

fun is_finite :: "jsnum \<Rightarrow> bool" where
  "is_finite (Num r) = True"
| "is_finite NaN = False"
| "is_finite PInf = False"
| "is_finite NInf = False"

section \<open>Strings\<close>

text \<open>
  \<^verbatim>\<open>Array.prototype.join\<close>, \<^verbatim>\<open>String.prototype.toLowerCase\<close> (on the ASCII letters; other
  bytes are left as they are), \<^verbatim>\<open>s.indexOf(p) == 0\<close> and \<^verbatim>\<open>s.indexOf(p) >= 0\<close>.
\<close>

fun join :: "string \<Rightarrow> string list \<Rightarrow> string" where
  "join sep [] = []"
| "join sep [x] = x"
| "join sep (x # y # ys) = x @ sep @ join sep (y # ys)"

definition lower_char :: "char \<Rightarrow> char" where
  "lower_char c =
     (case map_of (zip ''ABCDEFGHIJKLMNOPQRSTUVWXYZ'' ''abcdefghijklmnopqrstuvwxyz'') c of
        Some d \<Rightarrow> d
      | None \<Rightarrow> c)"

definition toLowerCase :: "string \<Rightarrow> string" where
  "toLowerCase s = map lower_char s"

definition starts_with :: "string \<Rightarrow> string \<Rightarrow> bool" where
  "starts_with p s = (take (length p) s = p)"

fun contains :: "string \<Rightarrow> string \<Rightarrow> bool" where
  "contains p [] = (p = [])"
| "contains p (c # s) = (starts_with p (c # s) \<or> contains p s)"

text \<open>
  Decimal digits, the integers Redis accepts as the value of a counter (an optional minus
  sign, then \<^verbatim>\<open>0\<close> alone or digits that do not start with \<^verbatim>\<open>0\<close>; the 64-bit range is
  idealised to all integers), and JavaScript's \<^verbatim>\<open>parseInt\<close> of a text with the default
  radix (leading ASCII white space, an optional sign, the longest run of digits; a
  \<^verbatim>\<open>0x\<close> prefix selects base 16).
\<close>

definition digit_val :: "char \<Rightarrow> nat option" where
  "digit_val c = map_of (zip ''0123456789'' [0, 1, 2, 3, 4, 5, 6, 7, 8, 9]) c"

definition hex_val :: "char \<Rightarrow> nat option" where
  "hex_val c =
     map_of (zip ''0123456789abcdefABCDEF''
       [0, 1, 2, 3, 4, 5, 6, 7, 8, 9, 10, 11, 12, 13, 14, 15, 10, 11, 12, 13, 14, 15]) c"

fun digits_val :: "(char \<Rightarrow> nat option) \<Rightarrow> nat \<Rightarrow> nat \<Rightarrow> string \<Rightarrow> nat" where
  "digits_val dv base acc [] = acc"
| "digits_val dv base acc (c # cs) =
     (case dv c of None \<Rightarrow> acc | Some d \<Rightarrow> digits_val dv base (base * acc + d) cs)"




definition is_space :: "char \<Rightarrow> bool" where
  "is_space c = (c \<in> set [CHR '' '', CHR 0x09, CHR 0x0A, CHR 0x0B, CHR 0x0C, CHR 0x0D])"

definition parse_digits :: "(char \<Rightarrow> nat option) \<Rightarrow> nat \<Rightarrow> string \<Rightarrow> nat option" where
  "parse_digits dv base s =
     (case s of
        [] \<Rightarrow> None
      | c # cs \<Rightarrow> if dv c = None then None else Some (digits_val dv base 0 s))"

definition parseInt_unsigned :: "string \<Rightarrow> nat option" where
  "parseInt_unsigned s =
     (if take 2 s = ''0x'' \<or> take 2 s = ''0X'' then parse_digits hex_val 16 (drop 2 s)
      else parse_digits digit_val 10 s)"

definition parseInt_text :: "string \<Rightarrow> jsnum" where
  "parseInt_text s =
     (let t = dropWhile is_space s;
          neg = (t \<noteq> [] \<and> hd t = CHR ''-'');
          u = (if t \<noteq> [] \<and> (hd t = CHR ''-'' \<or> hd t = CHR ''+'') then tl t else t)
      in case parseInt_unsigned u of
           None \<Rightarrow> NaN
         | Some n \<Rightarrow> Num (if neg then - real n else real n))"

text \<open>
  The wildcard match of the store's key enumeration: \<^verbatim>\<open>*\<close> matches any run of characters
  and \<^verbatim>\<open>?\<close> any single one. Bracket classes and backslash escapes of the store's matcher
  are not modelled: a pattern is taken to be free of them.
\<close>

fun glob :: "string \<Rightarrow> string \<Rightarrow> bool" where
  "glob [] [] = True"
| "glob [] (c # s) = False"
| "glob (p # ps) [] = (p = CHR ''*'' \<and> glob ps [])"
| "glob (p # ps) (c # s) =
     (if p = CHR ''*'' then glob ps (c # s) \<or> glob (p # ps) s
      else (p = CHR ''?'' \<or> p = c) \<and> glob ps s)"

section \<open>The backing store\<close>

text \<open>
  The client talks to one Redis database: a single key space in which a key holds either
  a string or a sorted set. A string that is the decimal form of an integer is kept as
  \<open>RInt\<close> (the counters), any other string as \<open>RText\<close>. A sorted set is an association
  list from its members to their scores; a score is a finite double, idealised to a
  real. Reading a list takes the first entry of a member or key, so a list with a
  repeated key stands for the map \<^const>\<open>map_of\<close> gives.

  A command on a key that holds the other kind of value fails with Redis's wrong-type
  error: a write then leaves the store as it was, a read gives the error as its reply.
  The connection itself never fails in this model.
\<close>

type_synonym zset = "(string \<times> real) list"

datatype rvalue = RInt int | RText string | RZSet zset

type_synonym store = "(string \<times> rvalue) list"

datatype store_error = WrongType

text \<open>The replies of \<^verbatim>\<open>GET\<close>, \<^verbatim>\<open>ZCARD\<close> and \<^verbatim>\<open>ZSCORE\<close>.\<close>

datatype get_reply = GNil | GInt int | GText string | GErr

datatype card_reply = Card nat | CardErr

datatype score_reply = SNil | SScore real | SErr

definition redis_get :: "store \<Rightarrow> string \<Rightarrow> get_reply" where
  "redis_get s k =
     (case map_of s k of
        None \<Rightarrow> GNil
      | Some (RInt n) \<Rightarrow> GInt n
      | Some (RText t) \<Rightarrow> GText t
      | Some (RZSet z) \<Rightarrow> GErr)"





text \<open>
  \<^verbatim>\<open>ZADD key score member\<close> replies with the number of members it added: 1 for a new
  member, 0 when it only changed the score of a member the set already had.
\<close>

definition redis_zadd :: "store \<Rightarrow> string \<Rightarrow> real \<Rightarrow> string \<Rightarrow> store \<times> (store_error + nat)" where
  "redis_zadd s k w m =
     (case map_of s k of
        None \<Rightarrow> (AList.update k (RZSet [(m, w)]) s, Inr 1)
      | Some (RZSet z) \<Rightarrow>
          (AList.update k (RZSet (AList.update m w z)) s,
           Inr (if map_of z m = None then 1 else 0))
      | Some (RInt n) \<Rightarrow> (s, Inl WrongType)
      | Some (RText t) \<Rightarrow> (s, Inl WrongType))"

definition redis_zcard :: "store \<Rightarrow> string \<Rightarrow> card_reply" where
  "redis_zcard s k =
     (case map_of s k of
        None \<Rightarrow> Card 0
      | Some (RZSet z) \<Rightarrow> Card (length (AList.clearjunk z))
      | Some (RInt n) \<Rightarrow> CardErr
      | Some (RText t) \<Rightarrow> CardErr)"

definition redis_zscore :: "store \<Rightarrow> string \<Rightarrow> string \<Rightarrow> score_reply" where
  "redis_zscore s k m =
     (case map_of s k of
        None \<Rightarrow> SNil
      | Some (RZSet z) \<Rightarrow> (case map_of z m of None \<Rightarrow> SNil | Some w \<Rightarrow> SScore w)
      | Some (RInt n) \<Rightarrow> SErr
      | Some (RText t) \<Rightarrow> SErr)"

text \<open>
  A sorted set is read in the order of its scores, members of one score in the order
  of their bytes.
\<close>

fun str_less :: "string \<Rightarrow> string \<Rightarrow> bool" where
  "str_less [] [] = False"
| "str_less [] (d # t) = True"
| "str_less (c # s) [] = False"
| "str_less (c # s) (d # t) =
     ((of_char c :: nat) < of_char d \<or> (c = d \<and> str_less s t))"

definition entry_le :: "string \<times> real \<Rightarrow> string \<times> real \<Rightarrow> bool" where
  "entry_le a b = (snd a < snd b \<or> (snd a = snd b \<and> \<not> str_less (fst b) (fst a)))"

fun zinsert :: "string \<times> real \<Rightarrow> zset \<Rightarrow> zset" where
  "zinsert a [] = [a]"
| "zinsert a (b # bs) = (if entry_le a b then a # b # bs else b # zinsert a bs)"

definition zsorted :: "zset \<Rightarrow> zset" where
  "zsorted z = foldr zinsert (AList.clearjunk z) []"

text \<open>
  \<^verbatim>\<open>ZRANGE\<close> and \<^verbatim>\<open>ZREVRANGE key start stop\<close>: both ends are inclusive, and a negative
  index counts from the end of the set.
\<close>

definition range_of :: "'a list \<Rightarrow> int \<Rightarrow> int \<Rightarrow> 'a list" where
  "range_of xs start stop =
     (let len = int (length xs);
          start1 = (if start < 0 then len + start else start);
          stop1 = (if stop < 0 then len + stop else stop);
          start2 = (if start1 < 0 then 0 else start1)
      in if stop1 < start2 \<or> len \<le> start2 then []
         else take (nat (min stop1 (len - 1) - start2 + 1)) (drop (nat start2) xs))"

definition redis_zrange :: "store \<Rightarrow> string \<Rightarrow> int \<Rightarrow> int \<Rightarrow> store_error + zset" where
  "redis_zrange s k start stop =
     (case map_of s k of
        None \<Rightarrow> Inr []
      | Some (RZSet z) \<Rightarrow> Inr (range_of (zsorted z) start stop)
      | Some (RInt n) \<Rightarrow> Inl WrongType
      | Some (RText t) \<Rightarrow> Inl WrongType)"

definition redis_zrevrange :: "store \<Rightarrow> string \<Rightarrow> int \<Rightarrow> int \<Rightarrow> store_error + zset" where
  "redis_zrevrange s k start stop =
     (case map_of s k of
        None \<Rightarrow> Inr []
      | Some (RZSet z) \<Rightarrow> Inr (range_of (rev (zsorted z)) start stop)
      | Some (RInt n) \<Rightarrow> Inl WrongType
      | Some (RText t) \<Rightarrow> Inl WrongType)"

text \<open>\<^verbatim>\<open>KEYS pattern\<close>: every key of the store that matches, each once.\<close>

definition redis_keys :: "store \<Rightarrow> string \<Rightarrow> string list" where
  "redis_keys s pat = filter (glob pat) (map fst (AList.clearjunk s))"

text \<open>
  \<^verbatim>\<open>parseInt\<close> of a reply. A missing value (\<^verbatim>\<open>null\<close>) and an error reply parse to
  \<^verbatim>\<open>NaN\<close>. A score arrives as the decimal text of the double, of which \<^verbatim>\<open>parseInt\<close>
  keeps the digits before the point: the score truncated toward zero (scores small or
  large enough to be printed with an exponent are not modelled).
\<close>

definition trunc :: "real \<Rightarrow> int" where
  "trunc r = (if 0 \<le> r then \<lfloor>r\<rfloor> else \<lceil>r\<rceil>)"

fun parseInt_get :: "get_reply \<Rightarrow> jsnum" where
  "parseInt_get GNil = NaN"
| "parseInt_get (GInt n) = Num (of_int n)"
| "parseInt_get (GText t) = parseInt_text t"
| "parseInt_get GErr = NaN"

fun parseInt_score :: "score_reply \<Rightarrow> jsnum" where
  "parseInt_score SNil = NaN"
| "parseInt_score (SScore w) = Num (of_int (trunc w))"
| "parseInt_score SErr = NaN"

text \<open>The number a \<^verbatim>\<open>ZCARD\<close> reply is when it is used in arithmetic.\<close>

fun card_number :: "card_reply \<Rightarrow> jsnum" where
  "card_number (Card n) = Num (of_nat n)"
| "card_number CardErr = NaN"

section \<open>The document graph\<close>

text \<open>
  The options of a \<^verbatim>\<open>DocumentGraph\<close> that shape its keys and queries (the connection's
  host, port and database are the client's). The defaults are \<^verbatim>\<open>defaultOptions\<close>.
\<close>

record options =
  nsPrefix :: string
  separator :: string
  searchLimit :: int

definition defaultOptions :: options where
  "defaultOptions = \<lparr>nsPrefix = [], separator = '':'', searchLimit = 100\<rparr>"

definition TOTAL :: string where "TOTAL = ''t''"
definition NEXT :: string where "NEXT = ''<''"
definition WEIGHT :: string where "WEIGHT = ''w''"
definition CONTENT :: string where "CONTENT = ''^''"

text \<open>
  A node of the glossary as \<^verbatim>\<open>toJSON\<close> gives it. A text field that is absent is the
  empty string (both are falsy, and the source only tests them); \<open>j_orig\<close> and
  \<open>j_children\<close> are \<open>None\<close> when the field is absent.
\<close>

record node =
  n_tag :: string
  n_term :: string
  n_distinct :: string
  n_isFiltered :: bool


datatype fmt_arg = S string | N node

text \<open>
  \<^verbatim>\<open>_fmt\<close>: the namespace prefix when it is not empty, then the parts of every argument: the
  lower-cased tag and the distinct value or lower-cased term of a tagged node, a string
  that is not empty as it is; all joined by the separator. An argument that is neither
  (an empty or absent string, a node with no tag) adds nothing.
\<close>

fun fmt_parts :: "fmt_arg \<Rightarrow> string list" where
  "fmt_parts (N a) =
     (if n_tag a \<noteq> [] then
        [toLowerCase (n_tag a),
         if n_distinct a \<noteq> [] then n_distinct a else toLowerCase (n_term a)]
      else [])"
| "fmt_parts (S a) = (if a \<noteq> [] then [a] else [])"

definition fmt :: "options \<Rightarrow> fmt_arg list \<Rightarrow> string" where
  "fmt cfg arguments =
     join (separator cfg)
       ((if nsPrefix cfg \<noteq> [] then [nsPrefix cfg] else []) @ concat (map fmt_parts arguments))"


text \<open>The four system prefixes the constructor computes.\<close>

definition prefixes :: "options \<Rightarrow> string list" where
  "prefixes cfg =
     [fmt cfg [S TOTAL] @ separator cfg, fmt cfg [S NEXT] @ separator cfg,
      fmt cfg [S CONTENT] @ separator cfg, fmt cfg [S WEIGHT] @ separator cfg]"

definition isPrefixed :: "options \<Rightarrow> string \<Rightarrow> bool" where
  "isPrefixed cfg k = list_ex (\<lambda>p. starts_with p k) (prefixes cfg)"








text \<open>
  \<^verbatim>\<open>TFIDF(id, key, callback)\<close> with its callback given. A document id that is falsy
  (\<^verbatim>\<open>undefined\<close>, \<^verbatim>\<open>null\<close> or the empty string) is the empty string here: the source
  only tests it. The reads are one \<^verbatim>\<open>MULTI\<close>; a read of a key of the wrong kind puts
  an error in its place among the replies.
\<close>

record tfidf_result =
  r_key :: string
  r_rawtf :: jsnum
  r_df :: card_reply
  r_n :: jsnum
  r_idf :: jsnum
  r_tf :: jsnum
  r_tfidf :: jsnum

definition TFIDF :: "options \<Rightarrow> string \<Rightarrow> string \<Rightarrow> store \<Rightarrow> tfidf_result" where
  "TFIDF cfg did key s =
     (let totalDocKey = fmt cfg [S TOTAL];
          totalKey = fmt cfg [S TOTAL, S key];
          keyFrequency0 = parseInt_get (redis_get s totalKey);
          docFrequency = parseInt_get (redis_get s totalDocKey);
          keyDocFrequency = redis_zcard s (fmt cfg [S key]);
          keyFrequency =
            (if did \<noteq> [] then parseInt_score (redis_zscore s (fmt cfg [S did]) key)
             else keyFrequency0);
          tf = js_add (Num 1) (js_div (js_log keyFrequency) LN10);
          idf = js_div (js_log (js_div docFrequency (card_number keyDocFrequency))) LN10
      in \<lparr>r_key = key, r_rawtf = keyFrequency, r_df = keyDocFrequency, r_n = docFrequency,
          r_idf = idf, r_tf = tf, r_tfidf = js_mul tf idf\<rparr>)"

text \<open>
  \<^verbatim>\<open>_computeWeights\<close> and \<^verbatim>\<open>indexWeights\<close>. \<^verbatim>\<open>async.every\<close> starts the iterator on every
  term at once, so every \<^verbatim>\<open>TFIDF\<close> reads the store as it was; the two \<^verbatim>\<open>ZADD\<close>s of a
  term follow its reply. The iterator reports the reply of the second \<^verbatim>\<open>ZADD\<close>, which is
  truthy when that command added a member; the result is the conjunction over the
  terms, \<^verbatim>\<open>true\<close> for no term at all. A score that is not finite is not written (the
  store refuses \<^verbatim>\<open>NaN\<close>; an infinite score is outside this model of the sorted sets).
\<close>

definition zadd_num :: "store \<Rightarrow> string \<Rightarrow> jsnum \<Rightarrow> string \<Rightarrow> store \<times> bool" where
  "zadd_num s k x m =
     (case x of
        Num w \<Rightarrow> (let (s', r) = redis_zadd s k w m
                  in (s', case r of Inl e \<Rightarrow> False | Inr c \<Rightarrow> c \<noteq> 0))
      | NaN \<Rightarrow> (s, False)
      | PInf \<Rightarrow> (s, False)
      | NInf \<Rightarrow> (s, False))"

definition writeWeight :: "options \<Rightarrow> string \<Rightarrow> store \<times> bool \<Rightarrow> string \<times> tfidf_result \<Rightarrow> store \<times> bool" where
  "writeWeight cfg did acc item =
     (let (s1, success1) = zadd_num (fst acc) (fmt cfg [S WEIGHT, S did]) (r_tfidf (snd item)) (fst item);
          (s2, success2) = zadd_num s1 (fmt cfg [S WEIGHT, S (fst item)]) (r_tfidf (snd item)) did
      in (s2, snd acc \<and> success2))"

definition computeWeights :: "options \<Rightarrow> string \<Rightarrow> string list \<Rightarrow> store \<Rightarrow> store \<times> bool" where
  "computeWeights cfg did terms s =
     foldl (writeWeight cfg did) (s, True) (map (\<lambda>item. (item, TFIDF cfg did item s)) terms)"

definition indexWeights :: "options \<Rightarrow> string \<Rightarrow> store \<Rightarrow> store \<times> bool" where
  "indexWeights cfg did s =
     (case redis_zrange s (fmt cfg [S did]) 0 (- 1) of
        Inl err \<Rightarrow> (s, False)
      | Inr results \<Rightarrow> computeWeights cfg did (map fst results) s)"

text \<open>
  \<^verbatim>\<open>_isIdFiltered\<close> and \<^verbatim>\<open>_cosineFilter\<close>. The filter is \<open>None\<close> for \<^verbatim>\<open>null\<close>. The reply of
  \<^verbatim>\<open>ZRANGE ... WITHSCORES\<close> is read two items at a time, a member and its score, and the
  score goes through \<^verbatim>\<open>parseInt\<close>. The objects \<^verbatim>\<open>id1_scores\<close> and \<^verbatim>\<open>id2_scores\<close> are
  association lists, \<^verbatim>\<open>hasOwnProperty\<close> a lookup in them.

  The score arrives as text. The store prints a double with 17 significant digits
  (\<^verbatim>\<open>%.17g\<close>): without an exponent when the score is 0 or its magnitude is at least
  \<open>1e-4\<close> and below \<open>1e17\<close>, with one otherwise. \<^verbatim>\<open>parseInt\<close> reads the sign and the digits up
  to the first character that is neither. In a text without exponent these are the
  digits of the integer part of the score; in a text with an exponent they are the first
  digit of the mantissa, which depends on the double nearest to the score (\<open>4e-7\<close> is
  printed \<^verbatim>\<open>3.9999999999999998e-07\<close> and parses to 3) and is a parameter here: \<open>lead\<close> gives,
  for a score printed with an exponent, the integer \<^verbatim>\<open>parseInt\<close> reads.

  \<open>cosineSums\<close> is the part of \<^verbatim>\<open>_cosineFilter\<close> up to the three sums (the dot product and
  the two sums of squares), \<open>cosineFilter\<close> the whole of it.
\<close>

definition isIdFiltered :: "string list option \<Rightarrow> string \<Rightarrow> bool" where
  "isIdFiltered filterPrefixes m =
     (case filterPrefixes of
        None \<Rightarrow> False
      | Some ps \<Rightarrow> if ps \<noteq> [] then \<not> list_ex (\<lambda>p. contains p m) ps else False)"

definition plainScore :: "real \<Rightarrow> bool" where
  "plainScore w = (w = 0 \<or> (1 / 10 ^ 4 \<le> \<bar>w\<bar> \<and> \<bar>w\<bar> < 10 ^ 17))"

definition parseInt_weight :: "(real \<Rightarrow> int) \<Rightarrow> real \<Rightarrow> real" where
  "parseInt_weight lead w = (if plainScore w then of_int (trunc w) else of_int (lead w))"

type_synonym cosine_acc = "(string \<times> real) list \<times> string list \<times> real"

definition readScore ::
    "(real \<Rightarrow> int) \<Rightarrow> string list option \<Rightarrow> cosine_acc \<Rightarrow> string \<times> real \<Rightarrow> cosine_acc" where
  "readScore lead filterPrefixes acc item =
     (case acc of (scores, ids, sumsq) \<Rightarrow>
        (let m = fst item; score = parseInt_weight lead (snd item)
         in if \<not> isIdFiltered filterPrefixes m
            then (AList.update m score scores,
                  if m \<in> set ids then ids else ids @ [m],
                  sumsq + score * score)
            else (scores, ids, sumsq)))"

definition dotStep :: "(string \<times> real) list \<Rightarrow> (string \<times> real) list \<Rightarrow> real \<Rightarrow> string \<Rightarrow> real" where
  "dotStep id1_scores id2_scores dotsum m =
     (case (map_of id1_scores m, map_of id2_scores m) of
        (Some a, Some b) \<Rightarrow> dotsum + a * b
      | _ \<Rightarrow> dotsum)"

definition cosineSums ::
    "options \<Rightarrow> (real \<Rightarrow> int) \<Rightarrow> string list option \<Rightarrow> string \<Rightarrow> string \<Rightarrow> store \<Rightarrow>
       store_error + real \<times> real \<times> real" where
  "cosineSums cfg lead filterPrefixes id1 id2 s =
     (case redis_zrange s (fmt cfg [S WEIGHT, S id1]) 0 (- 1) of
        Inl err \<Rightarrow> Inl err
      | Inr id1_results \<Rightarrow>
          (case redis_zrange s (fmt cfg [S WEIGHT, S id2]) 0 (- 1) of
             Inl err \<Rightarrow> Inl err
           | Inr id2_results \<Rightarrow>
               (case foldl (readScore lead filterPrefixes) ([], [], 0) id1_results of
                  (id1_scores, ids1, id1_sum) \<Rightarrow>
                    (case foldl (readScore lead filterPrefixes) ([], ids1, 0) id2_results of
                       (id2_scores, ids, id2_sum) \<Rightarrow>
                         Inr (foldl (dotStep id1_scores id2_scores) 0 ids, id1_sum, id2_sum)))))"

definition cosineFilter ::
    "options \<Rightarrow> (real \<Rightarrow> int) \<Rightarrow> string list option \<Rightarrow> string \<Rightarrow> string \<Rightarrow> store \<Rightarrow>
       store_error + jsnum" where
  "cosineFilter cfg lead filterPrefixes id1 id2 s =
     (case cosineSums cfg lead filterPrefixes id1 id2 s of
        Inl err \<Rightarrow> Inl err
      | Inr (dotsum, id1_sum, id2_sum) \<Rightarrow>
          (let magnitude = js_mul (js_sqrt (Num id1_sum)) (js_sqrt (Num id2_sum))
           in Inr (js_div (Num dotsum) magnitude)))"

definition CosineConceptSimilarity ::
    "options \<Rightarrow> (real \<Rightarrow> int) \<Rightarrow> string \<Rightarrow> string \<Rightarrow> store \<Rightarrow> store_error + jsnum" where
  "CosineConceptSimilarity cfg lead id1 id2 s =
     cosineFilter cfg lead (Some [''noun'', ''adj'']) id1 id2 s"

definition CosineSimilarity ::
    "options \<Rightarrow> (real \<Rightarrow> int) \<Rightarrow> string \<Rightarrow> string \<Rightarrow> store \<Rightarrow> store_error + jsnum" where
  "CosineSimilarity cfg lead id1 id2 s = cosineFilter cfg lead None id1 id2 s"

text \<open>
  \<^verbatim>\<open>search\<close>, in its three steps: the resolution of the terms, the read of each resolved
  term's weight set, and the ranking. The limit of the call is \<open>None\<close> when the caller
  gives none; a limit of 0 is falsy and gives way to the configured one. The separator
  the resolution looks for is the character \<^verbatim>\<open>:\<close>, whatever the configured one is.
  \<^verbatim>\<open>Array.prototype.sort\<close> is taken to be stable: \<open>sortRanked\<close> puts the ids in descending
  order of score and keeps ids of one score in the order they had.
\<close>

definition resolveTerm :: "options \<Rightarrow> store \<Rightarrow> string \<Rightarrow> string list" where
  "resolveTerm cfg s term =
     (if CHR '':'' \<notin> set term then
        map (\<lambda>k. drop (length (nsPrefix cfg) + 1) k)
          (filter (\<lambda>k. \<not> isPrefixed cfg k) (redis_keys s (fmt cfg [S ''*'', S term])))
      else [term])"

definition resolveTerms :: "options \<Rightarrow> store \<Rightarrow> string list \<Rightarrow> string list" where
  "resolveTerms cfg s terms = concat (map (resolveTerm cfg s) terms)"

definition effectiveLimit :: "options \<Rightarrow> int option \<Rightarrow> int" where
  "effectiveLimit cfg given =
     (case given of
        None \<Rightarrow> searchLimit cfg
      | Some l \<Rightarrow> if l \<noteq> 0 then l else searchLimit cfg)"

definition fetchWeights :: "options \<Rightarrow> int option \<Rightarrow> store \<Rightarrow> string \<Rightarrow> store_error + zset" where
  "fetchWeights cfg given s term =
     redis_zrevrange s (fmt cfg [S WEIGHT, S term]) 0 (effectiveLimit cfg given)"

fun collect :: "(store_error + 'a) list \<Rightarrow> store_error + 'a list" where
  "collect [] = Inr []"
| "collect (Inl e # rs) = Inl e"
| "collect (Inr x # rs) = (case collect rs of Inl e \<Rightarrow> Inl e | Inr xs \<Rightarrow> Inr (x # xs))"

type_synonym ranking = "string list \<times> (string \<times> real) list"

definition addScore :: "ranking \<Rightarrow> string \<times> real \<Rightarrow> ranking" where
  "addScore acc item =
     (case acc of (ids, scores) \<Rightarrow>
        (case map_of scores (fst item) of
           None \<Rightarrow> (ids @ [fst item], AList.update (fst item) (0 + snd item) scores)
         | Some w \<Rightarrow> (ids, AList.update (fst item) (w + snd item) scores)))"

definition scoreOf :: "(string \<times> real) list \<Rightarrow> string \<Rightarrow> real" where
  "scoreOf scores m = (case map_of scores m of None \<Rightarrow> 0 | Some w \<Rightarrow> w)"

fun insertRanked :: "(string \<times> real) list \<Rightarrow> string \<Rightarrow> string list \<Rightarrow> string list" where
  "insertRanked scores a [] = [a]"
| "insertRanked scores a (b # bs) =
     (if scoreOf scores b \<le> scoreOf scores a then a # b # bs
      else b # insertRanked scores a bs)"

definition sortRanked :: "(string \<times> real) list \<Rightarrow> string list \<Rightarrow> string list" where
  "sortRanked scores ids = foldr (insertRanked scores) ids []"

definition search :: "options \<Rightarrow> string list \<Rightarrow> int option \<Rightarrow> store \<Rightarrow> store_error + ranking" where
  "search cfg terms given s =
     (case collect (map (fetchWeights cfg given s) (resolveTerms cfg s terms)) of
        Inl err \<Rightarrow> Inl err
      | Inr results \<Rightarrow>
          (case foldl addScore ([], []) (concat results) of
             (ids, scores) \<Rightarrow> Inr (sortRanked scores ids, scores)))"

section \<open>The cosine of two vectors\<close>

text \<open>
  The specification's words for the similarity: the dot product over the keys the two
  vectors share, divided by the product of the two magnitudes, each the square root of
  the sum of squares over the vector's own entries. \<open>retained\<close> is the part of a weight set
  the tag filter keeps, \<open>parsedVector\<close> that part with every weight put through
  \<^verbatim>\<open>parseInt\<close>, and \<open>storedCosine\<close> the similarity of the weights as they are stored.
  \<open>fractionalStore\<close> holds two documents with the weights 0.5 and 1.5; \<open>tinyStore\<close> holds
  one document with the weight \<open>4e-7\<close>, whose text begins with the digit 3 (\<open>leadThree\<close>).
\<close>

definition retained :: "string list option \<Rightarrow> zset \<Rightarrow> zset" where
  "retained filterPrefixes r = filter (\<lambda>item. \<not> isIdFiltered filterPrefixes (fst item)) r"

definition parsedVector :: "(real \<Rightarrow> int) \<Rightarrow> string list option \<Rightarrow> zset \<Rightarrow> zset" where
  "parsedVector lead filterPrefixes r =
     map (\<lambda>item. (fst item, parseInt_weight lead (snd item))) (retained filterPrefixes r)"

definition dotProduct :: "zset \<Rightarrow> zset \<Rightarrow> real" where
  "dotProduct v1 v2 =
     sum_list (map (\<lambda>item. case map_of v2 (fst item) of None \<Rightarrow> 0 | Some b \<Rightarrow> snd item * b) v1)"

definition sumSquares :: "zset \<Rightarrow> real" where
  "sumSquares v = sum_list (map (\<lambda>item. snd item * snd item) v)"

definition cosineOf :: "zset \<Rightarrow> zset \<Rightarrow> jsnum" where
  "cosineOf v1 v2 =
     js_div (Num (dotProduct v1 v2))
       (js_mul (js_sqrt (Num (sumSquares v1))) (js_sqrt (Num (sumSquares v2))))"

definition storedCosine ::
    "options \<Rightarrow> string list option \<Rightarrow> string \<Rightarrow> string \<Rightarrow> store \<Rightarrow> store_error + jsnum" where
  "storedCosine cfg filterPrefixes id1 id2 s =
     (case redis_zrange s (fmt cfg [S WEIGHT, S id1]) 0 (- 1) of
        Inl err \<Rightarrow> Inl err
      | Inr r1 \<Rightarrow>
          (case redis_zrange s (fmt cfg [S WEIGHT, S id2]) 0 (- 1) of
             Inl err \<Rightarrow> Inl err
           | Inr r2 \<Rightarrow> Inr (cosineOf (retained filterPrefixes r1) (retained filterPrefixes r2))))"



definition leadThree :: "real \<Rightarrow> int" where
  "leadThree w = 3"

text \<open>The two loops of \<^verbatim>\<open>_cosineFilter\<close>, stated on a parsed vector, for the proofs.\<close>

definition addEntry :: "cosine_acc \<Rightarrow> string \<times> real \<Rightarrow> cosine_acc" where
  "addEntry acc item =
     (case acc of (scores, ids, sumsq) \<Rightarrow>
        (AList.update (fst item) (snd item) scores,
         if fst item \<in> set ids then ids else ids @ [fst item],
         sumsq + snd item * snd item))"

definition pairProduct :: "zset \<Rightarrow> zset \<Rightarrow> string \<Rightarrow> real" where
  "pairProduct v1 v2 m =
     (case (map_of v1 m, map_of v2 m) of (Some a, Some b) \<Rightarrow> a * b | _ \<Rightarrow> 0)"

section \<open>Ingest, seen from the store\<close>





text \<open>
  Document ids, node keys and the entries an ingest keeps for itself share the one key
  space. A name is reserved when its key is one of those entries: the key of a frequency
  counter (the document counter, or the total prefix and a node key), of a next-edge set
  (the next prefix and a node key) or of the content of a document (the content key, or
  the content prefix and a document id). A weight set is not among them: an ingest
  writes none.
\<close>

definition begins :: "string \<Rightarrow> string \<Rightarrow> bool" where
  "begins p k = (starts_with p k \<and> length p < length k)"

definition reserved :: "options \<Rightarrow> string \<Rightarrow> bool" where
  "reserved cfg x =
     (fmt cfg [S x] = fmt cfg [S TOTAL] \<or>
      begins (fmt cfg [S TOTAL] @ separator cfg) (fmt cfg [S x]) \<or>
      begins (fmt cfg [S NEXT] @ separator cfg) (fmt cfg [S x]) \<or>
      fmt cfg [S x] = fmt cfg [S CONTENT] \<or>
      begins (fmt cfg [S CONTENT] @ separator cfg) (fmt cfg [S x]))"








definition symmetric :: "options \<Rightarrow> store \<Rightarrow> bool" where
  "symmetric cfg s =
     (\<forall>x y. \<not> reserved cfg x \<longrightarrow> \<not> reserved cfg y \<longrightarrow>
        redis_zscore s (fmt cfg [S x]) y = redis_zscore s (fmt cfg [S y]) x)"



















section \<open>TF-IDF\<close>

lemma js_log_div_zero: "\<not> is_finite (js_div (js_log (js_div x (Num 0))) LN10)"
  by (cases x) (auto simp: LN10_def)

lemma js_mul_not_finite: "\<not> is_finite y \<Longrightarrow> \<not> is_finite (js_mul x y)"
  by (cases x; cases y) auto



text \<open>
  Claim C3, as the code has it. The source has no policy for a term of document frequency
  zero: it divides the document counter by zero. For every such term the \<open>idf\<close> and the
  \<open>tfidf\<close> that \<^verbatim>\<open>TFIDF\<close> returns are not finite (neither is 0); when the document counter
  is positive the \<open>idf\<close> is \<^verbatim>\<open>Infinity\<close>.
\<close>

theorem TFIDF_zero_df:
  assumes "redis_zcard s (fmt cfg [S key]) = Card 0"
  shows "\<not> is_finite (r_idf (TFIDF cfg did key s)) \<and> \<not> is_finite (r_tfidf (TFIDF cfg did key s))
    \<and> (\<forall>n. redis_get s (fmt cfg [S TOTAL]) = GInt n \<and> 0 < n \<longrightarrow> r_idf (TFIDF cfg did key s) = PInf)"
  using assms js_log_div_zero js_mul_not_finite
  by (auto simp: TFIDF_def Let_def LN10_def)

theorem TFIDF_zero_df_witness:
  "\<not> is_finite (r_idf (TFIDF defaultOptions [] ''noun:dog'' [(''t'', RInt 1)])) \<and>
   \<not> is_finite (r_tfidf (TFIDF defaultOptions [] ''noun:dog'' [(''t'', RInt 1)])) \<and>
   r_idf (TFIDF defaultOptions [] ''noun:dog'' [(''t'', RInt 1)]) = PInf"
  using TFIDF_zero_df [of "[(''t'', RInt 1)]" defaultOptions "''noun:dog''" "[]"]
  by (simp add: fmt_def defaultOptions_def TOTAL_def redis_get_def redis_zcard_def)

text \<open>
  The claim as the specification states it (\<open>idf = 0\<close> and \<open>tfidf = 0\<close>) fails on a corpus of
  one document for a term no document has.
\<close>

theorem TFIDF_zero_df_counterexample:
  "redis_zcard [(''t'', RInt 1)] (fmt defaultOptions [S ''noun:dog'']) = Card 0 \<and>
   r_idf (TFIDF defaultOptions [] ''noun:dog'' [(''t'', RInt 1)]) = PInf \<and>
   r_tfidf (TFIDF defaultOptions [] ''noun:dog'' [(''t'', RInt 1)]) = NaN"
  by (simp add: TFIDF_def fmt_def defaultOptions_def TOTAL_def redis_get_def redis_zcard_def LN10_def)

section \<open>Indexing the weights\<close>

text \<open>
  Claim C4, as the code has it. The guard of \<^verbatim>\<open>indexWeights\<close> tests the reply for
  falsiness, and an empty array is truthy. For a document whose adjacency set is empty
  the call reports \<^verbatim>\<open>true\<close> (no term fails) and writes nothing; it reports \<^verbatim>\<open>false\<close>,
  without throwing, when the read of the adjacency set fails.
\<close>

theorem indexWeights_empty:
  "(redis_zrange s (fmt cfg [S did]) 0 (- 1) = Inr [] \<longrightarrow> indexWeights cfg did s = (s, True)) \<and>
   (redis_zrange s (fmt cfg [S did]) 0 (- 1) = Inl e \<longrightarrow> indexWeights cfg did s = (s, False))"
  by (simp add: indexWeights_def computeWeights_def)

theorem indexWeights_empty_witness:
  "indexWeights defaultOptions ''d1'' [] = ([], True) \<and>
   indexWeights defaultOptions ''d1'' [(''d1'', RInt 1)] = ([(''d1'', RInt 1)], False)"
  using indexWeights_empty [of "[]" defaultOptions "''d1''" WrongType]
    indexWeights_empty [of "[(''d1'', RInt 1)]" defaultOptions "''d1''" WrongType]
  by (simp add: redis_zrange_def fmt_def defaultOptions_def)

text \<open>The claim as stated (\<^verbatim>\<open>false\<close> for an empty adjacency set) fails on the empty store.\<close>

theorem indexWeights_empty_counterexample:
  "redis_zrange [] (fmt defaultOptions [S ''d1'']) 0 (- 1) = Inr [] \<and>
   snd (indexWeights defaultOptions ''d1'' []) = True"
  by (simp add: redis_zrange_def indexWeights_def computeWeights_def)

section \<open>Search\<close>

text \<open>
  Claim C5 fails on the code: \<^verbatim>\<open>ZREVRANGE key 0 searchLimit\<close> has an inclusive end, so it
  returns one entry more than the limit. With a limit of 1 and three documents in the
  weight set of the term, the search reads two of them.
\<close>

theorem fetchWeights_one_more:
  "fetchWeights defaultOptions (Some 1)
     [(''w:noun:cat'', RZSet [(''d1'', 3), (''d2'', 2), (''d3'', 1)])] ''noun:cat''
   = Inr [(''d1'', 3), (''d2'', 2)]"
  by (simp add: fetchWeights_def fmt_def defaultOptions_def WEIGHT_def redis_zrevrange_def
      effectiveLimit_def zsorted_def entry_le_def range_of_def)

text \<open>
  Claim C6 fails on the code: the resolution cuts \<open>length nsPrefix + 1\<close> characters off a
  matched key, the prefix and one separator, also when the prefix is empty and \<^verbatim>\<open>_fmt\<close>
  wrote neither. With the default options the term \<^verbatim>\<open>cat\<close> resolves the key
  \<^verbatim>\<open>noun:cat\<close> to \<^verbatim>\<open>oun:cat\<close>.
\<close>

theorem resolveTerm_default_prefix:
  "resolveTerm defaultOptions
     [(''noun:cat'', RZSet [(''d1'', 1)]), (''t:noun:cat'', RInt 1)] ''cat'' = [''oun:cat'']"
  by (simp add: resolveTerm_def fmt_def defaultOptions_def redis_keys_def isPrefixed_def
      prefixes_def starts_with_def TOTAL_def NEXT_def CONTENT_def WEIGHT_def)

section \<open>Similarity\<close>

subsection \<open>Reading a whole sorted set\<close>

lemma set_zinsert: "set (zinsert a bs) = insert a (set bs)"
  by (induction bs) auto

lemma distinct_zinsert:
  "distinct (map fst (zinsert a bs)) \<longleftrightarrow> fst a \<notin> fst ` set bs \<and> distinct (map fst bs)"
  by (induction bs) (auto simp: set_zinsert)

lemma set_foldr_zinsert: "set (foldr zinsert xs []) = set xs"
  by (induction xs) (auto simp: set_zinsert)

lemma distinct_foldr_zinsert:
  "distinct (map fst xs) \<Longrightarrow> distinct (map fst (foldr zinsert xs []))"
  by (induction xs) (auto simp: distinct_zinsert set_foldr_zinsert)

lemma distinct_zsorted: "distinct (map fst (zsorted z))"
  by (simp add: zsorted_def distinct_foldr_zinsert distinct_clearjunk)

lemma range_of_all: "range_of xs 0 (- 1) = xs"
  by (cases xs) (auto simp: range_of_def Let_def)

lemma zrange_all_distinct:
  "redis_zrange s k 0 (- 1) = Inr r \<Longrightarrow> distinct (map fst r)"
  by (auto simp: redis_zrange_def range_of_all distinct_zsorted split: option.splits rvalue.splits)

lemma distinct_retained: "distinct (map fst r) \<Longrightarrow> distinct (map fst (retained fps r))"
  by (simp add: retained_def distinct_map_filter)

lemma distinct_parsedVector:
  "distinct (map fst r) \<Longrightarrow> distinct (map fst (parsedVector lead fps r))"
  using distinct_retained [of r fps] by (simp add: parsedVector_def comp_def)

subsection \<open>What the loops compute\<close>

lemma readScore_addEntry:
  "foldl (readScore lead fps) acc r = foldl addEntry acc (parsedVector lead fps r)"
proof (induction r arbitrary: acc)
  case Nil
  then show ?case by (simp add: parsedVector_def retained_def)
next
  case (Cons a r)
  obtain sc ids t where acc: "acc = (sc, ids, t)" by (cases acc) auto
  show ?case
    using Cons.IH
    by (simp add: acc parsedVector_def retained_def readScore_def addEntry_def Let_def)
qed

lemma addEntry_scores:
  "map_of (fst (foldl addEntry (sc, ids, t) v)) = map_of sc ++ map_of (rev v)"
proof (induction v arbitrary: sc ids t)
  case Nil
  then show ?case by simp
next
  case (Cons a v)
  have step: "addEntry (sc, ids, t) a =
      (AList.update (fst a) (snd a) sc, (if fst a \<in> set ids then ids else ids @ [fst a]),
       t + snd a * snd a)"
    by (simp add: addEntry_def)
  have "map_of (fst (foldl addEntry (sc, ids, t) (a # v)))
      = map_of (AList.update (fst a) (snd a) sc) ++ map_of (rev v)"
    by (simp only: foldl_Cons step Cons.IH)
  also have "\<dots> = (map_of sc)(fst a \<mapsto> snd a) ++ map_of (rev v)"
    by (simp only: update_conv')
  also have "\<dots> = (map_of sc ++ map_of [a]) ++ map_of (rev v)"
    by (cases a) simp
  also have "\<dots> = map_of sc ++ map_of (rev (a # v))"
    by (simp only: rev.simps map_of_append map_add_assoc)
  finally show ?case .
qed

lemma addEntry_sum:
  "snd (snd (foldl addEntry (sc, ids, t) v)) = t + sumSquares v"
  by (induction v arbitrary: sc ids t) (auto simp: addEntry_def sumSquares_def)

lemma addEntry_ids_set:
  "set (fst (snd (foldl addEntry (sc, ids, t) v))) = set ids \<union> fst ` set v"
  by (induction v arbitrary: sc ids t) (auto simp: addEntry_def)

lemma addEntry_ids_distinct:
  "distinct ids \<Longrightarrow> distinct (fst (snd (foldl addEntry (sc, ids, t) v)))"
  by (induction v arbitrary: sc ids t) (auto simp: addEntry_def)

lemma map_of_rev_distinct: "distinct (map fst v) \<Longrightarrow> map_of (rev v) = map_of v"
  by (subst map_of_inject_set) (simp_all add: rev_map [symmetric])

lemma dotStep_pairProduct: "dotStep sc1 sc2 d m = d + pairProduct sc1 sc2 m"
  by (auto simp: dotStep_def pairProduct_def split: option.splits)

lemma foldl_dotStep: "foldl (dotStep sc1 sc2) d ids = d + sum_list (map (pairProduct sc1 sc2) ids)"
  by (induction ids arbitrary: d) (auto simp: dotStep_pairProduct)

lemma pairProduct_cong:
  "map_of sc1 = map_of v1 \<Longrightarrow> map_of sc2 = map_of v2 \<Longrightarrow> pairProduct sc1 sc2 = pairProduct v1 v2"
  by (auto simp: pairProduct_def fun_eq_iff)

lemma dotProduct_sum:
  assumes "distinct (map fst v1)"
  shows "dotProduct v1 v2 = sum (pairProduct v1 v2) (fst ` set v1)"
proof -
  have "map (\<lambda>item. case map_of v2 (fst item) of None \<Rightarrow> 0 | Some b \<Rightarrow> snd item * b) v1
      = map (\<lambda>item. pairProduct v1 v2 (fst item)) v1"
  proof (rule map_cong [OF refl])
    fix item assume "item \<in> set v1"
    then have "map_of v1 (fst item) = Some (snd item)"
      using assms map_of_eq_Some_iff [of v1 "fst item" "snd item"] by simp
    then show "(case map_of v2 (fst item) of None \<Rightarrow> 0 | Some b \<Rightarrow> snd item * b)
        = pairProduct v1 v2 (fst item)"
      by (simp add: pairProduct_def split: option.splits)
  qed
  then have "dotProduct v1 v2 = sum_list (map (\<lambda>item. pairProduct v1 v2 (fst item)) v1)"
    unfolding dotProduct_def by (rule arg_cong [where f = sum_list])
  also have "\<dots> = sum_list (map (pairProduct v1 v2) (map fst v1))"
    by (simp add: comp_def)
  finally have "dotProduct v1 v2 = sum_list (map (pairProduct v1 v2) (map fst v1))" .
  also have "\<dots> = sum (pairProduct v1 v2) (set (map fst v1))"
    by (rule sum_list_distinct_conv_sum_set [OF assms])
  finally show ?thesis by simp
qed

lemma dot_loop:
  assumes "distinct ids" "fst ` set v1 \<subseteq> set ids" "distinct (map fst v1)"
  shows "sum_list (map (pairProduct v1 v2) ids) = dotProduct v1 v2"
proof -
  have "sum_list (map (pairProduct v1 v2) ids) = sum (pairProduct v1 v2) (set ids)"
    using assms(1) by (simp add: sum_list_distinct_conv_sum_set)
  also have "\<dots> = sum (pairProduct v1 v2) (fst ` set v1)"
  proof (rule sum.mono_neutral_right)
    show "finite (set ids)" by simp
    show "fst ` set v1 \<subseteq> set ids" by (rule assms(2))
    show "\<forall>i\<in>set ids - fst ` set v1. pairProduct v1 v2 i = 0"
      by (auto simp: pairProduct_def map_of_eq_None_iff [symmetric] split: option.splits)
  qed
  finally show ?thesis by (simp add: dotProduct_sum [OF assms(3)])
qed

lemma cosineSums_char:
  assumes r1: "redis_zrange s (fmt cfg [S WEIGHT, S id1]) 0 (- 1) = Inr r1"
    and r2: "redis_zrange s (fmt cfg [S WEIGHT, S id2]) 0 (- 1) = Inr r2"
  shows "cosineSums cfg lead fps id1 id2 s =
           Inr (dotProduct (parsedVector lead fps r1) (parsedVector lead fps r2),
                sumSquares (parsedVector lead fps r1), sumSquares (parsedVector lead fps r2))"
proof -
  let ?v1 = "parsedVector lead fps r1" and ?v2 = "parsedVector lead fps r2"
  have d1: "distinct (map fst ?v1)" and d2: "distinct (map fst ?v2)"
    using zrange_all_distinct [OF r1] zrange_all_distinct [OF r2] by (simp_all add: distinct_parsedVector)
  obtain sc1 ids1 t1 where l1: "foldl addEntry ([], [], 0) ?v1 = (sc1, ids1, t1)"
    by (cases "foldl addEntry ([], [], 0) ?v1") auto
  obtain sc2 ids t2 where l2: "foldl addEntry ([], ids1, 0) ?v2 = (sc2, ids, t2)"
    by (cases "foldl addEntry ([], ids1, 0) ?v2") auto
  have m1: "map_of sc1 = map_of ?v1"
    using addEntry_scores [of "[]" "[]" 0 ?v1] l1 d1 by (simp add: map_of_rev_distinct)
  have m2: "map_of sc2 = map_of ?v2"
    using addEntry_scores [of "[]" ids1 0 ?v2] l2 d2 by (simp add: map_of_rev_distinct)
  have t1: "t1 = sumSquares ?v1" using addEntry_sum [of "[]" "[]" 0 ?v1] l1 by simp
  have t2: "t2 = sumSquares ?v2" using addEntry_sum [of "[]" ids1 0 ?v2] l2 by simp
  have i1: "set ids1 = fst ` set ?v1" "distinct ids1"
    using addEntry_ids_set [of "[]" "[]" 0 ?v1] addEntry_ids_distinct [of "[]" "[]" 0 ?v1] l1 by simp_all
  have i2: "fst ` set ?v1 \<subseteq> set ids" "distinct ids"
    using addEntry_ids_set [of "[]" ids1 0 ?v2] addEntry_ids_distinct [of ids1 "[]" 0 ?v2] l2 i1 by auto
  have dot: "foldl (dotStep sc1 sc2) 0 ids = dotProduct ?v1 ?v2"
    using dot_loop [OF i2(2) i2(1) d1, of ?v2]
    by (simp add: foldl_dotStep pairProduct_cong [OF m1 m2])
  show ?thesis
    by (simp add: cosineSums_def r1 r2 readScore_addEntry l1 l2 dot t1 t2)
qed

lemma cosineFilter_char:
  assumes r1: "redis_zrange s (fmt cfg [S WEIGHT, S id1]) 0 (- 1) = Inr r1"
    and r2: "redis_zrange s (fmt cfg [S WEIGHT, S id2]) 0 (- 1) = Inr r2"
  shows "cosineFilter cfg lead fps id1 id2 s =
           Inr (cosineOf (parsedVector lead fps r1) (parsedVector lead fps r2))"
  by (simp add: cosineFilter_def cosineSums_char [OF r1 r2] cosineOf_def)

lemma sumSquares_nonneg: "0 \<le> sumSquares v"
  by (induction v) (auto simp: sumSquares_def)

lemma sumSquares_zero: "sumSquares v = 0 \<Longrightarrow> item \<in> set v \<Longrightarrow> snd item = 0"
proof (induction v)
  case Nil
  then show ?case by simp
next
  case (Cons a v)
  have "0 \<le> snd a * snd a" by simp
  moreover have "0 \<le> sumSquares v" by (rule sumSquares_nonneg)
  moreover have "snd a * snd a + sumSquares v = 0" using Cons.prems(1) by (simp add: sumSquares_def)
  ultimately have "snd a * snd a = 0" "sumSquares v = 0" by linarith+
  then show ?case using Cons by auto
qed

lemma dotProduct_zero_left: "sumSquares v1 = 0 \<Longrightarrow> dotProduct v1 v2 = 0"
proof -
  assume z: "sumSquares v1 = 0"
  have eq: "map (\<lambda>item. case map_of v2 (fst item) of None \<Rightarrow> 0 | Some b \<Rightarrow> snd item * b) v1
      = map (\<lambda>item. 0) v1"
    by (rule map_cong [OF refl]) (auto simp: sumSquares_zero [OF z] split: option.splits)
  show ?thesis unfolding dotProduct_def eq by simp
qed

lemma dotProduct_zero_right: "sumSquares v2 = 0 \<Longrightarrow> dotProduct v1 v2 = 0"
proof -
  assume z: "sumSquares v2 = 0"
  have eq: "map (\<lambda>item. case map_of v2 (fst item) of None \<Rightarrow> 0 | Some b \<Rightarrow> snd item * b) v1
      = map (\<lambda>item. 0) v1"
  proof (rule map_cong [OF refl])
    fix item assume "item \<in> set v1"
    show "(case map_of v2 (fst item) of None \<Rightarrow> 0 | Some b \<Rightarrow> snd item * b) = (0::real)"
      using sumSquares_zero [OF z] by (auto split: option.splits dest!: map_of_SomeD)
  qed
  show ?thesis unfolding dotProduct_def eq by simp
qed

lemma cosineOf_zero:
  assumes "sumSquares v1 = 0 \<or> sumSquares v2 = 0"
  shows "cosineOf v1 v2 = NaN"
proof -
  have dot: "dotProduct v1 v2 = 0"
    using assms dotProduct_zero_left dotProduct_zero_right by blast
  have n1: "\<not> sumSquares v1 < 0" and n2: "\<not> sumSquares v2 < 0"
    using sumSquares_nonneg [of v1] sumSquares_nonneg [of v2] by linarith+
  have "sqrt (sumSquares v1) * sqrt (sumSquares v2) = 0" using assms by auto
  then show ?thesis by (simp add: cosineOf_def dot n1 n2)
qed

lemma plainScore_zero: "plainScore 0"
  by (simp add: plainScore_def)

lemma parsedVector_zero:
  assumes "sumSquares (retained fps r) = 0"
  shows "sumSquares (parsedVector lead fps r) = 0"
proof -
  have eq: "map (\<lambda>item. snd item * snd item) (parsedVector lead fps r)
      = map (\<lambda>item. 0) (retained fps r)"
    unfolding parsedVector_def map_map comp_def
  proof (rule map_cong [OF refl])
    fix item assume "item \<in> set (retained fps r)"
    then have "snd item = 0" using sumSquares_zero [OF assms] by blast
    then show "snd (fst item, parseInt_weight lead (snd item)) *
        snd (fst item, parseInt_weight lead (snd item)) = (0::real)"
      by (simp add: parseInt_weight_def plainScore_zero trunc_def)
  qed
  show ?thesis unfolding sumSquares_def eq by simp
qed


lemmas eval_defs = fmt_def defaultOptions_def WEIGHT_def redis_zrange_def zsorted_def entry_le_def
  range_of_def





lemmas cosine_defs = CosineSimilarity_def CosineConceptSimilarity_def cosineFilter_def cosineSums_def
  readScore_def isIdFiltered_def parseInt_weight_def plainScore_def trunc_def dotStep_def
  starts_with_def Let_def

subsection \<open>The claims\<close>

text \<open>
  Claim C7, as the code has it. The source divides the dot product by the product of the
  magnitudes without a guard. When both weight sets are read and the filtered weight
  vector of either document has magnitude zero as it is stored (its sum of squares is 0:
  it is empty, or every weight in it is 0), both the dot product and the product of the
  magnitudes are 0 and \<^verbatim>\<open>_cosineFilter\<close> returns \<^verbatim>\<open>NaN\<close>, for every filter: for
  \<^verbatim>\<open>CosineSimilarity\<close> (no filter) and \<^verbatim>\<open>CosineConceptSimilarity\<close> (noun, adj) alike,
  whatever the weights of the other document are.
\<close>

theorem cosine_zero_magnitude:
  assumes "redis_zrange s (fmt cfg [S WEIGHT, S id1]) 0 (- 1) = Inr r1"
    and "redis_zrange s (fmt cfg [S WEIGHT, S id2]) 0 (- 1) = Inr r2"
    and "sumSquares (retained fps r1) = 0 \<or> sumSquares (retained fps r2) = 0"
  shows "cosineFilter cfg lead fps id1 id2 s = Inr NaN"
proof -
  have "sumSquares (parsedVector lead fps r1) = 0 \<or> sumSquares (parsedVector lead fps r2) = 0"
    using assms(3) parsedVector_zero by blast
  then show ?thesis
    using cosineFilter_char [OF assms(1) assms(2)] cosineOf_zero by simp
qed

theorem cosine_zero_magnitude_witness:
  "CosineConceptSimilarity defaultOptions leadThree ''d1'' ''d2''
     [(''w:d1'', RZSet [(''noun:cat'', 0), (''verb:run'', 3)]),
      (''w:d2'', RZSet [(''noun:cat'', 2)])] = Inr NaN"
  using cosine_zero_magnitude [of
      "[(''w:d1'', RZSet [(''noun:cat'', 0), (''verb:run'', 3)]), (''w:d2'', RZSet [(''noun:cat'', 2)])]"
      defaultOptions "''d1''" "[(''noun:cat'', 0), (''verb:run'', 3)]" "''d2''" "[(''noun:cat'', 2)]"
      "Some [''noun'', ''adj'']" leadThree]
  by (simp add: CosineConceptSimilarity_def eval_defs retained_def isIdFiltered_def starts_with_def
      sumSquares_def)

text \<open>
  The claim as stated (the value 0) fails for a document with one weight against a
  document with none.
\<close>

theorem cosine_zero_magnitude_counterexample:
  "CosineSimilarity defaultOptions leadThree ''d1'' ''d2'' [(''w:d1'', RZSet [(''noun:cat'', 2)])]
     = Inr NaN \<and>
   CosineConceptSimilarity defaultOptions leadThree ''d1'' ''d2'' [(''w:d1'', RZSet [(''noun:cat'', 2)])]
     = Inr NaN"
  by (simp add: cosine_defs eval_defs)

text \<open>
  Claim C8 fails on the code, at a document whose weight set \<^verbatim>\<open>w:d1\<close> holds the one
  member noun:cat with the weight 0.5. The stored vector is not degenerate: its sum of
  squares is 0.25. The score arrives as the text \<^verbatim>\<open>0.5\<close>, of which \<^verbatim>\<open>parseInt\<close> keeps 0; the
  three sums are 0 and the similarity of the document with itself is \<^verbatim>\<open>NaN\<close>, not 1,
  the cosine of the stored vector with itself. (\<^verbatim>\<open>search\<close> reads the same scores with
  \<^verbatim>\<open>parseFloat\<close>.)
\<close>

theorem cosine_self_half:
  "sumSquares (retained None [(''noun:cat'', 1 / 2)]) = 1 / 4 \<and>
   storedCosine defaultOptions None ''d1'' ''d1'' [(''w:d1'', RZSet [(''noun:cat'', 1 / 2)])]
     = Inr (Num 1) \<and>
   cosineSums defaultOptions lead None ''d1'' ''d1'' [(''w:d1'', RZSet [(''noun:cat'', 1 / 2)])]
     = Inr (0, 0, 0) \<and>
   CosineSimilarity defaultOptions lead ''d1'' ''d1'' [(''w:d1'', RZSet [(''noun:cat'', 1 / 2)])]
     = Inr NaN"
  by (simp add: cosine_defs eval_defs retained_def sumSquares_def storedCosine_def cosineOf_def
      dotProduct_def)




section \<open>Ingest\<close>

subsection \<open>An ingest is its list of commands\<close>










subsection \<open>Keys\<close>


lemma fmt_two:
  "a \<noteq> [] \<Longrightarrow>
   fmt cfg [S a, S b] = (if b = [] then fmt cfg [S a] else fmt cfg [S a] @ separator cfg @ b)"
  by (simp add: fmt_def)


lemma system_names: "TOTAL \<noteq> []" "NEXT \<noteq> []" "CONTENT \<noteq> []" "WEIGHT \<noteq> []"
  by (simp_all add: TOTAL_def NEXT_def CONTENT_def WEIGHT_def)

lemma begins_append: "q \<noteq> [] \<Longrightarrow> begins (a @ b) (a @ b @ q)"
  by (simp add: begins_def starts_with_def)

lemma begins_split: "begins p k \<Longrightarrow> \<exists>q. q \<noteq> [] \<and> k = p @ q"
proof -
  assume b: "begins p k"
  then have "k = p @ drop (length p) k"
    by (simp add: begins_def starts_with_def) (metis append_take_drop_id)
  moreover have "drop (length p) k \<noteq> []" using b by (simp add: begins_def)
  ultimately show ?thesis by blast
qed

lemma unreserved_total: "\<not> reserved cfg x \<Longrightarrow> fmt cfg [S x] \<noteq> fmt cfg [S TOTAL, S key]"
  using begins_append [of key "fmt cfg [S TOTAL]" "separator cfg"]
  by (cases "key = []") (auto simp: reserved_def fmt_two system_names)


lemma unreserved_content: "\<not> reserved cfg x \<Longrightarrow> fmt cfg [S x] \<noteq> fmt cfg [S CONTENT, S did]"
  using begins_append [of did "fmt cfg [S CONTENT]" "separator cfg"]
  by (cases "did = []") (auto simp: reserved_def fmt_two system_names)

lemma unreserved_next: "\<not> reserved cfg x \<Longrightarrow> p \<noteq> [] \<Longrightarrow> fmt cfg [S x] \<noteq> fmt cfg [S NEXT, S p]"
  using begins_append [of p "fmt cfg [S NEXT]" "separator cfg"]
  by (auto simp: reserved_def fmt_two system_names)

lemma reserved_iff:
  "reserved cfg x \<longleftrightarrow>
     (\<exists>key. fmt cfg [S x] = fmt cfg [S TOTAL, S key]) \<or>
     (\<exists>p. p \<noteq> [] \<and> fmt cfg [S x] = fmt cfg [S NEXT, S p]) \<or>
     (\<exists>did. fmt cfg [S x] = fmt cfg [S CONTENT, S did])"
proof
  assume "reserved cfg x"
  then consider (t0) "fmt cfg [S x] = fmt cfg [S TOTAL]"
    | (t) "begins (fmt cfg [S TOTAL] @ separator cfg) (fmt cfg [S x])"
    | (n) "begins (fmt cfg [S NEXT] @ separator cfg) (fmt cfg [S x])"
    | (c0) "fmt cfg [S x] = fmt cfg [S CONTENT]"
    | (c) "begins (fmt cfg [S CONTENT] @ separator cfg) (fmt cfg [S x])"
    by (auto simp: reserved_def)
  then show "(\<exists>key. fmt cfg [S x] = fmt cfg [S TOTAL, S key]) \<or>
     (\<exists>p. p \<noteq> [] \<and> fmt cfg [S x] = fmt cfg [S NEXT, S p]) \<or>
     (\<exists>did. fmt cfg [S x] = fmt cfg [S CONTENT, S did])"
  proof cases
    case t0
    then have "fmt cfg [S x] = fmt cfg [S TOTAL, S []]" by (simp add: fmt_two system_names)
    then show ?thesis by blast
  next
    case t
    then obtain q where "q \<noteq> []" "fmt cfg [S x] = (fmt cfg [S TOTAL] @ separator cfg) @ q"
      using begins_split by blast
    then have "fmt cfg [S x] = fmt cfg [S TOTAL, S q]" by (simp add: fmt_two system_names)
    then show ?thesis by blast
  next
    case n
    then obtain q where "q \<noteq> []" "fmt cfg [S x] = (fmt cfg [S NEXT] @ separator cfg) @ q"
      using begins_split by blast
    then have "q \<noteq> [] \<and> fmt cfg [S x] = fmt cfg [S NEXT, S q]" by (simp add: fmt_two system_names)
    then show ?thesis by blast
  next
    case c0
    then have "fmt cfg [S x] = fmt cfg [S CONTENT, S []]" by (simp add: fmt_two system_names)
    then show ?thesis by blast
  next
    case c
    then obtain q where "q \<noteq> []" "fmt cfg [S x] = (fmt cfg [S CONTENT] @ separator cfg) @ q"
      using begins_split by blast
    then have "fmt cfg [S x] = fmt cfg [S CONTENT, S q]" by (simp add: fmt_two system_names)
    then show ?thesis by blast
  qed
next
  assume "(\<exists>key. fmt cfg [S x] = fmt cfg [S TOTAL, S key]) \<or>
     (\<exists>p. p \<noteq> [] \<and> fmt cfg [S x] = fmt cfg [S NEXT, S p]) \<or>
     (\<exists>did. fmt cfg [S x] = fmt cfg [S CONTENT, S did])"
  then show "reserved cfg x"
    using unreserved_total unreserved_next unreserved_content by blast
qed

subsection \<open>The symmetry of the cooccurrence weights\<close>

















subsection \<open>Ingesting a text twice\<close>



















































end
